theory Spec2Isabelle
  imports Complex_Main
begin

section \<open>Python numbers\<close>

text \<open>
  The manipulator is Python 2 code: ints are unbounded, \<^verbatim>\<open>/\<close> on two ints is floor
  division, and a float is an IEEE double. A double is modelled by the rational number
  it denotes, and every float operation is the exact operation followed by \<open>fl\<close>:
  rounding to the nearest number with 53 significant bits, ties to the even significand.
  The exponent range is left unbounded: overflow to infinity and subnormal numbers are
  not modelled (they need magnitudes of 2^1024 and beyond, or below 2^-1022).
\<close>

function ilog2 :: "int \<Rightarrow> int" where
  "ilog2 n = (if n < 2 then 0 else 1 + ilog2 (n div 2))"
  by pat_completeness auto
termination
  by (relation "measure nat") auto

declare ilog2.simps [simp del]

definition fexp :: "rat \<Rightarrow> int" where
  \<comment> \<open>the exponent \<open>e\<close> of the leading bit: \<open>2^e \<le> |x| < 2^(e+1)\<close>, for \<open>x \<noteq> 0\<close>\<close>
  "fexp x = (case quotient_of \<bar>x\<bar> of (p, q) \<Rightarrow>
     let e0 = ilog2 p - ilog2 q
     in if 2 powi e0 \<le> \<bar>x\<bar> then e0 else e0 - 1)"

definition round_half_even :: "rat \<Rightarrow> int" where
  "round_half_even q = (let f = \<lfloor>q\<rfloor>; d = q - of_int f
     in if d < 1 / 2 then f else if 1 / 2 < d then f + 1
        else if even f then f else f + 1)"

definition fl :: "rat \<Rightarrow> rat" where
  "fl x = (if x = 0 then 0
     else let s = 2 powi (fexp x - 52) in of_int (round_half_even (x / s)) * s)"

definition py_int :: "rat \<Rightarrow> int" where
  \<comment> \<open>\<^verbatim>\<open>int(x)\<close> of a float: truncation towards zero\<close>
  "py_int q = (if 0 \<le> q then \<lfloor>q\<rfloor> else \<lceil>q\<rceil>)"

datatype pynum = PyInt int | PyFloat rat

definition num_val :: "pynum \<Rightarrow> rat" where
  \<comment> \<open>the number denoted; Python compares an int with a float by value\<close>
  "num_val a = (case a of PyInt n \<Rightarrow> of_int n | PyFloat q \<Rightarrow> q)"

definition to_float :: "pynum \<Rightarrow> rat" where
  \<comment> \<open>the conversion of an operand that meets a float\<close>
  "to_float a = (case a of PyInt n \<Rightarrow> fl (of_int n) | PyFloat q \<Rightarrow> q)"

definition num_eq :: "pynum \<Rightarrow> pynum \<Rightarrow> bool" where
  "num_eq a b = (num_val a = num_val b)"

definition num_gt :: "pynum \<Rightarrow> pynum \<Rightarrow> bool" where
  "num_gt a b = (num_val b < num_val a)"

definition num_add :: "pynum \<Rightarrow> pynum \<Rightarrow> pynum" where
  "num_add a b = (case (a, b) of
       (PyInt i, PyInt j) \<Rightarrow> PyInt (i + j)
     | _ \<Rightarrow> PyFloat (fl (to_float a + to_float b)))"

definition num_sub :: "pynum \<Rightarrow> pynum \<Rightarrow> pynum" where
  "num_sub a b = (case (a, b) of
       (PyInt i, PyInt j) \<Rightarrow> PyInt (i - j)
     | _ \<Rightarrow> PyFloat (fl (to_float a - to_float b)))"

fun str_le :: "string \<Rightarrow> string \<Rightarrow> bool" where
  \<comment> \<open>\<^verbatim>\<open><=\<close> on Python 2 byte strings: lexicographic on the character codes\<close>
  "str_le [] _ = True"
| "str_le (a # as) [] = False"
| "str_le (a # as) (b # bs) =
     (if a = b then str_le as bs else (of_char a :: nat) < of_char b)"

fun dec_nat :: "nat \<Rightarrow> string" where
  "dec_nat n = (if n < 10 then [char_of (48 + n)]
     else dec_nat (n div 10) @ [char_of (48 + n mod 10)])"

declare dec_nat.simps [simp del]

definition fmt_d :: "int \<Rightarrow> string" where
  \<comment> \<open>\<^verbatim>\<open>"%d" % n\<close>\<close>
  "fmt_d n = (if n < 0 then CHR ''-'' # dec_nat (nat (- n)) else dec_nat (nat n))"


section \<open>Errors, requests and the manipulator object\<close>

text \<open>
  Modelled from the spec: the error classes (\<^verbatim>\<open>error.py\<close>) are not among the sources;
  the spec has every failure carry an HTTP code, a parameter name and a message.
  An \<^verbatim>\<open>IIIFError\<close> is raised with keyword arguments \<^verbatim>\<open>code\<close>, \<^verbatim>\<open>parameter\<close> and
  \<^verbatim>\<open>text\<close>; the model keeps the first two as given at the raise (\<open>None\<close> when the
  keyword is not passed) and leaves the message text out. \<^verbatim>\<open>IIIFZeroSizeError\<close> is its
  subclass. \<open>TypeError\<close> and \<open>ZeroDivisionError\<close> are the interpreter's own, and
  \<open>OSError\<close> is what \<^verbatim>\<open>os.makedirs\<close> raises.
\<close>

datatype error =
    IIIFError "int option" "string option"
  | IIIFZeroSizeError "int option" "string option"
  | TypeError
  | ZeroDivisionError
  | OSError

text \<open>
  Modelled from the spec: the request class (\<^verbatim>\<open>request.py\<close>) is not among the sources.
  The record has the attributes that the manipulator reads, with the types that the
  spec's data model and the manipulator's own comparisons and unpackings give them:
  \<open>region_xywh\<close> is a 4-tuple of numbers (ints for a pixel region, floats between 0 and
  100 for \<^verbatim>\<open>pct:\<close>) or \<^verbatim>\<open>None\<close>; \<open>size_wh\<close> is a pair of ints, either of which may
  be \<^verbatim>\<open>None\<close>; \<open>size_pct\<close> is a float or \<^verbatim>\<open>None\<close>; the rotation is a float.
  The four numbers of \<open>region_xywh\<close> come as a tuple or as a list (\<^verbatim>\<open>static.py\<close>
  assigns a list). Unpacking takes both alike, but a list never equals a tuple, so
  \<open>region_xywh_is_tuple\<close> tells which of the two the attribute holds.
\<close>

record request =
  region_full :: bool
  region_square :: bool
  region_pct :: bool
  region_xywh :: "(pynum \<times> pynum \<times> pynum \<times> pynum) option"
  region_xywh_is_tuple :: bool
  size_full :: bool
  size_pct :: "rat option"
  size_bang :: bool
  size_wh :: "int option \<times> int option"
  rotation_mirror :: bool
  rotation_deg :: rat
  quality :: "string option"
  format :: "string option"

record manipulator =
  api_version :: string
  compliance_level :: "int option"
  srcfile :: "string option"
  request :: request
  outfile :: "string option"
  width :: int
  height :: int
  mime_type :: "string option"

type_synonym box = "pynum \<times> pynum \<times> pynum \<times> pynum"


section \<open>The compliance URI\<close>

text \<open>
  A URI pattern holds one \<^verbatim>\<open>%d\<close>; it is kept as the text before and the text after it.
\<close>

definition subst_d :: "string \<times> string \<Rightarrow> int \<Rightarrow> string" where
  \<comment> \<open>\<^verbatim>\<open>uri_pattern % level\<close>\<close>
  "subst_d pattern n = fst pattern @ fmt_d n @ snd pattern"

definition compliance_uri :: "manipulator \<Rightarrow> string option" where
  "compliance_uri m =
     (let uri_pattern =
        (if api_version m = ''1.0''
           then Some (''http://library.stanford.edu/iiif/image-api/compliance.html#level'', [])
         else if api_version m = ''1.1''
           then Some (''http://library.stanford.edu/iiif/image-api/1.1/compliance.html#level'', [])
         else if api_version m = ''2.0''
           then Some (''http://iiif.io/api/image/2/level'', ''.json'')
         else None)
      in case uri_pattern of
           None \<Rightarrow> None
         | Some pattern \<Rightarrow>
            (case compliance_level m of
               None \<Rightarrow> None
             | Some level \<Rightarrow> Some (subst_d pattern level)))"


section \<open>The geometry of a request\<close>

definition pct_to_px :: "pynum \<Rightarrow> int \<Rightarrow> pynum" where
  \<comment> \<open>\<^verbatim>\<open>int( (x / 100.0) * side + 0.5)\<close>\<close>
  "pct_to_px x side =
     PyInt (py_int (fl (fl (fl (to_float x / 100) * fl (of_int side)) + 1 / 2)))"

definition region_noop :: "request \<Rightarrow> bool" where
  \<comment> \<open>the first test of \<^verbatim>\<open>region_to_apply\<close>; the comparison is with the tuple
      \<^verbatim>\<open>(0,0,100,100)\<close>, which only a tuple can equal\<close>
  "region_noop r \<longleftrightarrow>
     region_full r \<or>
     (region_pct r \<and> region_xywh_is_tuple r \<and>
      (case region_xywh r of
         None \<Rightarrow> False
       | Some (x, y, w, h) \<Rightarrow>
           num_eq x (PyInt 0) \<and> num_eq y (PyInt 0) \<and>
           num_eq w (PyInt 100) \<and> num_eq h (PyInt 100)))"

definition region_clipped :: "manipulator \<Rightarrow> error + box" where
  \<comment> \<open>the pct conversion and the truncation at the image boundary\<close>
  "region_clipped m =
     (case region_xywh (request m) of
        None \<Rightarrow> Inl TypeError
      | Some (x0, y0, w0, h0) \<Rightarrow>
          let pct = region_pct (request m);
              x = (if pct then pct_to_px x0 (width m) else x0);
              y = (if pct then pct_to_px y0 (height m) else y0);
              w = (if pct then pct_to_px w0 (width m) else w0);
              h = (if pct then pct_to_px h0 (height m) else h0);
              w' = (if num_gt (num_add x w) (PyInt (width m))
                    then num_sub (PyInt (width m)) x else w);
              h' = (if num_gt (num_add y h) (PyInt (height m))
                    then num_sub (PyInt (height m)) y else h)
          in Inr (x, y, w', h'))"

definition region_to_apply :: "manipulator \<Rightarrow> error + box option" where
  \<comment> \<open>\<open>Inr None\<close> is the result \<^verbatim>\<open>(None,None,None,None)\<close>\<close>
  "region_to_apply m =
     (if region_noop (request m) then Inr None
      else if width m \<le> 0 \<or> height m \<le> 0
        then Inl (IIIFError (Some 501) (Some ''region''))
      else if region_square (request m) then
        (if width m \<le> height m
         then Inr (Some (PyInt 0, PyInt ((height m - width m) div 2),
                         PyInt (width m), PyInt (width m)))
         else Inr (Some (PyInt ((width m - height m) div 2), PyInt 0,
                         PyInt (height m), PyInt (height m))))
      else
        (case region_clipped m of
           Inl e \<Rightarrow> Inl e
         | Inr (x, y, w, h) \<Rightarrow>
             if num_eq w (PyInt 0) \<or> num_eq h (PyInt 0)
               then Inl (IIIFZeroSizeError (Some 400) (Some ''region''))
             else if num_eq x (PyInt 0) \<and> num_eq y (PyInt 0) \<and>
                     num_eq w (PyInt (width m)) \<and> num_eq h (PyInt (height m))
               then Inr None
             else Inr (Some (x, y, w, h))))"

definition float_quot :: "int option \<Rightarrow> int \<Rightarrow> error + rat" where
  \<comment> \<open>\<^verbatim>\<open>float(a)/float(b)\<close>\<close>
  "float_quot a b =
     (case a of
        None \<Rightarrow> Inl TypeError
      | Some n \<Rightarrow>
          if fl (of_int b) = 0 then Inl ZeroDivisionError
          else Inr (fl (fl (of_int n) / fl (of_int b))))"

definition scale_dim :: "int \<Rightarrow> rat \<Rightarrow> int" where
  \<comment> \<open>\<^verbatim>\<open>int(side * frac + 0.5)\<close>\<close>
  "scale_dim side fr = py_int (fl (fl (fl (of_int side) * fr) + 1 / 2))"

definition scale_pct :: "int \<Rightarrow> rat \<Rightarrow> int" where
  \<comment> \<open>\<^verbatim>\<open>int(side * pct / 100.0 + 0.5)\<close>\<close>
  "scale_pct side p = py_int (fl (fl (fl (fl (of_int side) * p) / 100) + 1 / 2))"

definition other_dim :: "int \<Rightarrow> int \<Rightarrow> int \<Rightarrow> error + int" where
  \<comment> \<open>\<^verbatim>\<open>int(a * given / b + 0.5)\<close> on ints: the quotient is floor division\<close>
  "other_dim a given b =
     (if b = 0 then Inl ZeroDivisionError
      else Inr (py_int (fl (fl (of_int (a * given div b)) + 1 / 2))))"

definition size_target :: "manipulator \<Rightarrow> error + int \<times> int" where
  \<comment> \<open>the branches of \<^verbatim>\<open>size_to_apply\<close> that compute \<open>(w,h)\<close>: pct, !w,h and w,h\<close>
  "size_target m =
     (let r = request m in
      case size_pct r of
        Some p \<Rightarrow> Inr (scale_pct (width m) p, scale_pct (height m) p)
      | None \<Rightarrow>
          if size_bang r then
            (case float_quot (fst (size_wh r)) (width m) of
               Inl e \<Rightarrow> Inl e
             | Inr fw \<Rightarrow>
                (case float_quot (snd (size_wh r)) (height m) of
                   Inl e \<Rightarrow> Inl e
                 | Inr fh \<Rightarrow>
                     let fr = min fw fh
                     in Inr (scale_dim (width m) fr, scale_dim (height m) fr)))
          else
            (case size_wh r of
               (None, None) \<Rightarrow> Inl TypeError
             | (None, Some h) \<Rightarrow>
                 (case other_dim (width m) h (height m) of
                    Inl e \<Rightarrow> Inl e
                  | Inr w \<Rightarrow> Inr (w, h))
             | (Some w, None) \<Rightarrow>
                 (case other_dim (height m) w (width m) of
                    Inl e \<Rightarrow> Inl e
                  | Inr h \<Rightarrow> Inr (w, h))
             | (Some w, Some h) \<Rightarrow> Inr (w, h)))"

definition size_to_apply :: "manipulator \<Rightarrow> error + (int \<times> int) option" where
  \<comment> \<open>\<open>Inr None\<close> is the result \<^verbatim>\<open>(None,None)\<close>\<close>
  "size_to_apply m =
     (if size_full (request m) \<or> size_pct (request m) = Some 100 then Inr None
      else
        (case size_target m of
           Inl e \<Rightarrow> Inl e
         | Inr (w, h) \<Rightarrow>
             if w = 0 \<or> h = 0
               then Inl (IIIFZeroSizeError (Some 400) (Some ''size''))
             else if w = width m \<and> h = height m then Inr None
             else Inr (Some (w, h))))"

definition rotation_to_apply ::
  "bool \<Rightarrow> bool \<Rightarrow> manipulator \<Rightarrow> error + bool \<times> rat" where
  "rotation_to_apply only90s no_mirror m =
     (let rotation = rotation_deg (request m) in
      if no_mirror \<and> rotation_mirror (request m)
        then Inl (IIIFError (Some 501) (Some ''rotation''))
      else if only90s \<and> rotation \<noteq> 0 \<and> rotation \<noteq> 90 \<and>
              rotation \<noteq> 180 \<and> rotation \<noteq> 270
        then Inl (IIIFError (Some 501) (Some ''rotation''))
      else Inr (rotation_mirror (request m), rotation))"

definition quality_to_apply :: "manipulator \<Rightarrow> string" where
  "quality_to_apply m =
     (case quality (request m) of
        None \<Rightarrow> if str_le (api_version m) ''1.1'' then ''native'' else ''default''
      | Some q \<Rightarrow> q)"


section \<open>The pipeline of the base class\<close>

definition and_then :: "error + 'a \<Rightarrow> ('a \<Rightarrow> error + 'b) \<Rightarrow> error + 'b" where
  \<comment> \<open>sequencing: an exception raised by the first step ends the method\<close>
  "and_then x f = (case x of Inl e \<Rightarrow> Inl e | Inr v \<Rightarrow> f v)"

definition do_first :: "manipulator \<Rightarrow> error + manipulator" where
  "do_first m = Inr (m\<lparr>width := - 1, height := - 1\<rparr>)"

definition do_region :: "box option \<Rightarrow> manipulator \<Rightarrow> error + manipulator" where
  \<comment> \<open>\<^verbatim>\<open>x is not None\<close>: the result of \<open>region_to_apply\<close> is not the sentinel\<close>
  "do_region b m =
     (if b \<noteq> None then Inl (IIIFError (Some 501) (Some ''region'')) else Inr m)"

definition do_size :: "(int \<times> int) option \<Rightarrow> manipulator \<Rightarrow> error + manipulator" where
  "do_size s m =
     (if s \<noteq> None then Inl (IIIFError (Some 501) (Some ''size'')) else Inr m)"

definition do_rotation :: "bool \<Rightarrow> rat \<Rightarrow> manipulator \<Rightarrow> error + manipulator" where
  "do_rotation mirror rot m =
     (if mirror then Inl (IIIFError (Some 501) (Some ''rotation''))
      else if rot \<noteq> 0 then Inl (IIIFError (Some 501) (Some ''rotation''))
      else Inr m)"

definition do_quality :: "string \<Rightarrow> manipulator \<Rightarrow> error + manipulator" where
  "do_quality q m =
     (if str_le ''2.0'' (api_version m) then
        (if q \<noteq> ''default'' then Inl (IIIFError (Some 501) (Some ''default''))
         else Inr m)
      else
        (if q \<noteq> ''native'' then Inl (IIIFError (Some 501) (Some ''native''))
         else Inr m))"

text \<open>
  The file system is an input of the model: \<open>fs_exists d\<close> is the answer of
  \<^verbatim>\<open>os.path.exists\<close>, \<open>fs_makedirs d\<close> tells whether \<^verbatim>\<open>os.makedirs\<close> succeeds (it
  raises \<open>OSError\<close> otherwise), and \<open>fs_copyfile src dst\<close> tells whether
  \<^verbatim>\<open>shutil.copyfile\<close> succeeds (it raises \<^verbatim>\<open>IOError\<close> otherwise).
\<close>

record filesystem =
  fs_exists :: "string \<Rightarrow> bool"
  fs_makedirs :: "string \<Rightarrow> bool"
  fs_copyfile :: "string option \<Rightarrow> string \<Rightarrow> bool"

definition dirname :: "string \<Rightarrow> string" where
  \<comment> \<open>\<^verbatim>\<open>os.path.dirname\<close> on POSIX paths: the text up to the last slash, without trailing slashes
      unless it is made of slashes only; empty when the path has no slash\<close>
  "dirname p =
     (let head = rev (dropWhile (\<lambda>c. c \<noteq> CHR ''/'') (rev p))
      in if head \<noteq> [] \<and> head \<noteq> replicate (length head) (CHR ''/'')
         then rev (dropWhile (\<lambda>c. c = CHR ''/'') (rev head))
         else head)"

definition output_dir :: "filesystem \<Rightarrow> manipulator \<Rightarrow> error + manipulator" where
  \<comment> \<open>the directory of the output file is created when it does not exist; the empty
      path does not exist, and \<^verbatim>\<open>os.makedirs\<close> cannot create it\<close>
  "output_dir fs m =
     (case outfile m of
        None \<Rightarrow> Inr m
      | Some dst \<Rightarrow>
          let d = dirname dst
          in if d \<noteq> [] \<and> fs_exists fs d then Inr m
             else if d \<noteq> [] \<and> fs_makedirs fs d then Inr m
             else Inl OSError)"

text \<open>\<open>do_format\<close> copies the source file when an output file is named.\<close>

definition do_format ::
  "(string option \<Rightarrow> string \<Rightarrow> bool) \<Rightarrow> string option \<Rightarrow> manipulator
     \<Rightarrow> error + manipulator" where
  "do_format copyfile fmt m =
     (if fmt \<noteq> None then Inl (IIIFError (Some 415) (Some ''format''))
      else
        (case outfile m of
           None \<Rightarrow> Inr (m\<lparr>outfile := srcfile m, mime_type := None\<rparr>)
         | Some dst \<Rightarrow>
             if copyfile (srcfile m) dst then Inr (m\<lparr>mime_type := None\<rparr>)
             else Inl (IIIFError (Some 500) None)))"

definition do_last :: "manipulator \<Rightarrow> error + manipulator" where
  "do_last m = Inr m"

definition set_args ::
  "manipulator \<Rightarrow> string option \<Rightarrow> request option \<Rightarrow> string option \<Rightarrow> manipulator" where
  \<comment> \<open>the first lines of \<open>derive\<close>: an argument that is not \<^verbatim>\<open>None\<close> replaces the
      attribute\<close>
  "set_args m src req dst =
     m\<lparr>srcfile := (case src of None \<Rightarrow> srcfile m | Some f \<Rightarrow> Some f),
       request := (case req of None \<Rightarrow> request m | Some r \<Rightarrow> r),
       outfile := (case dst of None \<Rightarrow> outfile m | Some f \<Rightarrow> Some f)\<rparr>"

definition derive ::
  "filesystem \<Rightarrow> manipulator
     \<Rightarrow> string option \<Rightarrow> request option \<Rightarrow> string option \<Rightarrow> error + manipulator" where
  \<comment> \<open>the value returned is \<open>(outfile, mime_type)\<close> of the final object\<close>
  "derive fs m src req dst =
     and_then (output_dir fs (set_args m src req dst)) (\<lambda>m0.
     and_then (do_first m0) (\<lambda>m1.
     and_then (region_to_apply m1) (\<lambda>b.
     and_then (do_region b m1) (\<lambda>m2.
     and_then (size_to_apply m2) (\<lambda>s.
     and_then (do_size s m2) (\<lambda>m3.
     and_then (rotation_to_apply False True m3) (\<lambda>(mirror, rot).
     and_then (do_rotation mirror rot m3) (\<lambda>m4.
     and_then (do_quality (quality_to_apply m4) m4) (\<lambda>m5.
     and_then (do_format (fs_copyfile fs) (format (request m5)) m5) do_last)))))))))"


section \<open>The pipeline on an \<^verbatim>\<open>IIIFManipulatorPIL\<close> object\<close>

text \<open>
  The subclass inherits \<open>derive\<close> and overrides \<open>do_first\<close> and the five stage methods.
  Each override is declared with no parameter besides \<^verbatim>\<open>self\<close>, so a call that
  passes arguments raises \<open>TypeError\<close> before the body runs. The bodies are parameters
  of the model. Opening the source image is an input too: \<open>open_image\<close> gives the size
  of the image loaded from the source file, or \<open>None\<close> when the library fails.
\<close>

definition call_no_params ::
  "nat \<Rightarrow> (manipulator \<Rightarrow> error + manipulator) \<Rightarrow> manipulator \<Rightarrow> error + manipulator" where
  \<comment> \<open>a call with \<open>nargs\<close> arguments of a method declared \<^verbatim>\<open>def f(self)\<close>\<close>
  "call_no_params nargs body m = (if nargs = 0 then body m else Inl TypeError)"

record pil_methods =
  pil_do_region :: "manipulator \<Rightarrow> error + manipulator"
  pil_do_size :: "manipulator \<Rightarrow> error + manipulator"
  pil_do_rotation :: "manipulator \<Rightarrow> error + manipulator"
  pil_do_quality :: "manipulator \<Rightarrow> error + manipulator"
  pil_do_format :: "manipulator \<Rightarrow> error + manipulator"

definition pil_do_first ::
  "(string option \<Rightarrow> (int \<times> int) option) \<Rightarrow> manipulator \<Rightarrow> error + manipulator" where
  "pil_do_first open_image m =
     (case open_image (srcfile m) of
        None \<Rightarrow> Inl (IIIFError None None)
      | Some (w, h) \<Rightarrow> Inr (m\<lparr>width := w, height := h\<rparr>))"

definition pil_derive ::
  "filesystem \<Rightarrow> (string option \<Rightarrow> (int \<times> int) option) \<Rightarrow> pil_methods \<Rightarrow> manipulator
     \<Rightarrow> string option \<Rightarrow> request option \<Rightarrow> string option \<Rightarrow> error + manipulator" where
  "pil_derive fs open_image pil m src req dst =
     and_then (output_dir fs (set_args m src req dst)) (\<lambda>m0.
     and_then (pil_do_first open_image m0) (\<lambda>m1.
     and_then (region_to_apply m1) (\<lambda>b.
     and_then (call_no_params 4 (pil_do_region pil) m1) (\<lambda>m2.
     and_then (size_to_apply m2) (\<lambda>s.
     and_then (call_no_params 2 (pil_do_size pil) m2) (\<lambda>m3.
     and_then (rotation_to_apply False True m3) (\<lambda>(mirror, rot).
     and_then (call_no_params 2 (pil_do_rotation pil) m3) (\<lambda>m4.
     and_then (call_no_params 1 (pil_do_quality pil) m4) (\<lambda>m5.
     and_then (call_no_params 1 (pil_do_format pil) m5) do_last)))))))))"


section \<open>Example objects\<close>

text \<open>
  The request \<^verbatim>\<open>full/full/0\<close> with no quality and no format, the changes that the
  other region and size forms make to it, and a manipulator object that holds a request
  and the dimensions of its image. The region forms assign a list of four numbers, as
  \<^verbatim>\<open>static.py\<close> does; \<open>as_tuple\<close> turns it into a tuple. \<open>fs_ok\<close> is a file system
  where every directory exists and every copy succeeds.
\<close>

definition plain_request :: request where
  "plain_request =
     \<lparr>region_full = True, region_square = False, region_pct = False, region_xywh = None,
      region_xywh_is_tuple = False,
      size_full = True, size_pct = None, size_bang = False, size_wh = (None, None),
      rotation_mirror = False, rotation_deg = 0, quality = None, format = None\<rparr>"

definition with_pixel_region :: "int \<Rightarrow> int \<Rightarrow> int \<Rightarrow> int \<Rightarrow> request \<Rightarrow> request" where
  "with_pixel_region x y w h r =
     r\<lparr>region_full := False, region_square := False, region_pct := False,
       region_xywh := Some (PyInt x, PyInt y, PyInt w, PyInt h),
       region_xywh_is_tuple := False\<rparr>"

definition with_pct_region :: "rat \<Rightarrow> rat \<Rightarrow> rat \<Rightarrow> rat \<Rightarrow> request \<Rightarrow> request" where
  "with_pct_region x y w h r =
     r\<lparr>region_full := False, region_square := False, region_pct := True,
       region_xywh := Some (PyFloat x, PyFloat y, PyFloat w, PyFloat h),
       region_xywh_is_tuple := False\<rparr>"

definition as_tuple :: "request \<Rightarrow> request" where
  "as_tuple r = r\<lparr>region_xywh_is_tuple := True\<rparr>"

definition with_square_region :: "request \<Rightarrow> request" where
  "with_square_region r =
     r\<lparr>region_full := False, region_square := True, region_pct := False, region_xywh := None\<rparr>"

definition with_size_pct :: "rat \<Rightarrow> request \<Rightarrow> request" where
  "with_size_pct p r =
     r\<lparr>size_full := False, size_pct := Some p, size_bang := False, size_wh := (None, None)\<rparr>"

definition with_size_wh :: "int option \<Rightarrow> int option \<Rightarrow> request \<Rightarrow> request" where
  "with_size_wh w h r =
     r\<lparr>size_full := False, size_pct := None, size_bang := False, size_wh := (w, h)\<rparr>"

definition with_size_bang :: "int \<Rightarrow> int \<Rightarrow> request \<Rightarrow> request" where
  "with_size_bang mw mh r =
     r\<lparr>size_full := False, size_pct := None, size_bang := True, size_wh := (Some mw, Some mh)\<rparr>"

definition manipulator_at :: "string \<Rightarrow> int \<Rightarrow> int \<Rightarrow> request \<Rightarrow> manipulator" where
  "manipulator_at api w h r =
     \<lparr>api_version = api, compliance_level = None, srcfile = None, request = r,
      outfile = None, width = w, height = h, mime_type = None\<rparr>"

definition pil_unreached :: pil_methods where
  \<comment> \<open>bodies for the closed examples; no call of \<open>pil_derive\<close> reaches a body\<close>
  "pil_unreached =
     \<lparr>pil_do_region = Inr, pil_do_size = Inr, pil_do_rotation = Inr,
      pil_do_quality = Inr, pil_do_format = Inr\<rparr>"

definition fs_ok :: filesystem where
  "fs_ok = \<lparr>fs_exists = (\<lambda>d. True), fs_makedirs = (\<lambda>d. True),
            fs_copyfile = (\<lambda>src dst. True)\<rparr>"

lemmas example_defs =
  plain_request_def with_pixel_region_def with_pct_region_def with_square_region_def
  with_size_pct_def with_size_wh_def with_size_bang_def manipulator_at_def pil_unreached_def
  as_tuple_def fs_ok_def


section \<open>Rounding to a double\<close>

lemma ilog2_nonneg: "0 \<le> ilog2 n"
  by (induction n rule: ilog2.induct) (subst ilog2.simps, simp)

lemma ilog2_bounds:
  "0 < n \<Longrightarrow> 2 ^ nat (ilog2 n) \<le> n \<and> n < 2 * 2 ^ nat (ilog2 n)"
proof (induction n rule: ilog2.induct)
  case (1 n)
  show ?case
  proof (cases "n < 2")
    case True
    with 1 have "n = 1" by simp
    then show ?thesis by (simp add: ilog2.simps)
  next
    case False
    then have pos: "0 < n div 2" by simp
    from 1(1)[OF False pos] have ih: "2 ^ nat (ilog2 (n div 2)) \<le> n div 2"
      "n div 2 < 2 * 2 ^ nat (ilog2 (n div 2))" by simp_all
    have e: "nat (ilog2 n) = Suc (nat (ilog2 (n div 2)))"
      using False ilog2_nonneg[of "n div 2"] by (subst ilog2.simps) (simp add: nat_add_distrib)
    show ?thesis unfolding e using ih by simp presburger
  qed
qed

lemma powi_ilog2: "(2::rat) powi ilog2 n = 2 ^ nat (ilog2 n)"
  using ilog2_nonneg[of n] by (simp add: power_int_def)

text \<open>The exponent chosen by \<open>fexp\<close> is not above the leading bit.\<close>

lemma fexp_le:
  assumes "x \<noteq> 0"
  shows "2 powi fexp x \<le> \<bar>x\<bar>"
proof -
  obtain p q where pq: "quotient_of \<bar>x\<bar> = (p, q)" by (cases "quotient_of \<bar>x\<bar>")
  have q: "0 < q" using pq by (rule quotient_of_denom_pos)
  have x: "\<bar>x\<bar> = of_int p / of_int q" using pq by (rule quotient_of_div)
  have p: "0 < p"
  proof -
    have "0 < \<bar>x\<bar>" using assms by simp
    then have "0 < rat_of_int p / of_int q" using x by simp
    then show ?thesis using q by (simp add: zero_less_divide_iff)
  qed
  let ?e0 = "ilog2 p - ilog2 q"
  show ?thesis
  proof (cases "2 powi ?e0 \<le> \<bar>x\<bar>")
    case True
    then show ?thesis by (simp add: fexp_def pq Let_def)
  next
    case False
    then have fe: "fexp x = ?e0 - 1" by (simp add: fexp_def pq Let_def)
    have "(2::rat) powi (?e0 - 1) = 2 powi ilog2 p / 2 powi (ilog2 q + 1)"
      by (simp add: power_int_diff algebra_simps)
    also have "\<dots> = 2 ^ nat (ilog2 p) / (2 * 2 ^ nat (ilog2 q))"
      using ilog2_nonneg[of q] by (simp add: powi_ilog2 power_int_add)
    also have "\<dots> \<le> of_int p / of_int q"
    proof (rule frac_le)
      have "rat_of_int (2 ^ nat (ilog2 p)) \<le> of_int p"
        using ilog2_bounds[OF p] by (simp only: of_int_le_iff)
      then show "(2::rat) ^ nat (ilog2 p) \<le> of_int p" by simp
      have "rat_of_int q \<le> of_int (2 * 2 ^ nat (ilog2 q))"
        using ilog2_bounds[OF q] by (simp only: of_int_le_iff) simp
      then show "rat_of_int q \<le> 2 * 2 ^ nat (ilog2 q)" by simp
    qed (use q p in simp_all)
    finally show ?thesis using x fe by simp
  qed
qed

text \<open>It is not below the leading bit either: the significand has 53 bits.\<close>

lemma fexp_less:
  assumes "x \<noteq> 0"
  shows "\<bar>x\<bar> < 2 powi (fexp x + 1)"
proof -
  obtain p q where pq: "quotient_of \<bar>x\<bar> = (p, q)" by (cases "quotient_of \<bar>x\<bar>")
  have q: "0 < q" using pq by (rule quotient_of_denom_pos)
  have x: "\<bar>x\<bar> = of_int p / of_int q" using pq by (rule quotient_of_div)
  have p: "0 < p"
  proof -
    have "0 < \<bar>x\<bar>" using assms by simp
    then have "0 < rat_of_int p / of_int q" using x by simp
    then show ?thesis using q by (simp add: zero_less_divide_iff)
  qed
  let ?e0 = "ilog2 p - ilog2 q"
  show ?thesis
  proof (cases "2 powi ?e0 \<le> \<bar>x\<bar>")
    case True
    then have fe: "fexp x = ?e0" by (simp add: fexp_def pq Let_def)
    have pb: "rat_of_int p < 2 * 2 ^ nat (ilog2 p)"
    proof -
      have "rat_of_int p < of_int (2 * 2 ^ nat (ilog2 p))"
        using ilog2_bounds[OF p] by (simp only: of_int_less_iff)
      then show ?thesis by simp
    qed
    have qb: "(2::rat) ^ nat (ilog2 q) \<le> of_int q"
    proof -
      have "rat_of_int (2 ^ nat (ilog2 q)) \<le> of_int q"
        using ilog2_bounds[OF q] by (simp only: of_int_le_iff)
      then show ?thesis by simp
    qed
    have "of_int p / rat_of_int q < (2 * 2 ^ nat (ilog2 p)) / 2 ^ nat (ilog2 q)"
      using pb qb q p by (intro frac_less) simp_all
    also have "\<dots> = 2 powi (ilog2 p + 1) / 2 powi ilog2 q"
      using ilog2_nonneg[of p] by (simp add: powi_ilog2 power_int_add)
    also have "\<dots> = 2 powi (?e0 + 1)"
      by (simp add: power_int_diff[symmetric] algebra_simps)
    finally show ?thesis using x fe by simp
  next
    case False
    then have fe: "fexp x = ?e0 - 1" by (simp add: fexp_def pq Let_def)
    from False show ?thesis by (simp add: fe)
  qed
qed

lemma round_half_even_error: "\<bar>of_int (round_half_even q) - q\<bar> \<le> 1 / 2"
proof -
  have "of_int \<lfloor>q\<rfloor> \<le> q" "q < of_int \<lfloor>q\<rfloor> + 1" by linarith+
  then show ?thesis
    by (auto simp: round_half_even_def Let_def)
qed

lemma round_half_even_of_int: "round_half_even (of_int z) = z"
  by (simp add: round_half_even_def)

text \<open>The doubles next to 0.1 and 1/3, and the ties at \<open>2^53 + 1\<close> and \<open>2^53 + 3\<close>.\<close>

lemma fl_examples:
  "fl (1 / 10) = 3602879701896397 / 2 ^ 55"
  "fl (1 / 3) = 6004799503160661 / 2 ^ 54"
  "fl (2 ^ 53 + 1) = 2 ^ 53"
  "fl (2 ^ 53 + 3) = 2 ^ 53 + 4"
  "fl (- (1 / 10)) = - (3602879701896397 / 2 ^ 55)"
  "fl (1 / 4) = 1 / 4"
  by code_simp+

text \<open>The relative error of one rounding is at most \<open>2^-53\<close>.\<close>

lemma fl_error: "\<bar>fl x - x\<bar> \<le> \<bar>x\<bar> / 2 ^ 53"
proof (cases "x = 0")
  case True
  then show ?thesis by (simp add: fl_def)
next
  case False
  define s :: rat where "s = 2 powi (fexp x - 52)"
  define n where "n = round_half_even (x / s)"
  have s: "0 < s" by (simp add: s_def zero_less_power_int)
  have flx: "fl x = of_int n * s" using False by (simp add: fl_def s_def n_def Let_def)
  have "\<bar>of_int n - x / s\<bar> \<le> 1 / 2" unfolding n_def by (rule round_half_even_error)
  then have "\<bar>of_int n - x / s\<bar> * s \<le> 1 / 2 * s"
    using s by (intro mult_right_mono) simp_all
  moreover have "\<bar>of_int n - x / s\<bar> * s = \<bar>of_int n * s - x\<bar>"
    using s by (simp add: abs_mult_pos[symmetric] field_simps del: abs_mult_pos)
  ultimately have e1: "\<bar>fl x - x\<bar> \<le> s / 2" using flx by simp
  have "s = 2 powi fexp x / 2 ^ 52" by (simp add: s_def power_int_diff)
  also have "\<dots> \<le> \<bar>x\<bar> / 2 ^ 52" using fexp_le[OF False] by (simp add: divide_right_mono)
  finally have "s / 2 \<le> \<bar>x\<bar> / 2 ^ 53" by simp
  with e1 show ?thesis by linarith
qed

lemma fl_nonneg: "0 \<le> x \<Longrightarrow> 0 \<le> fl x"
  using abs_le_D2[OF fl_error[of x]] by simp

text \<open>An int below \<open>2^53\<close> in magnitude converts to a float without rounding.\<close>

lemma fl_of_int:
  assumes "\<bar>n\<bar> < 2 ^ 53"
  shows "fl (of_int n) = of_int n"
proof (cases "n = 0")
  case True
  then show ?thesis by (simp add: fl_def)
next
  case False
  let ?x = "rat_of_int n"
  have nz: "?x \<noteq> 0" using False by simp
  have "2 powi fexp ?x \<le> \<bar>?x\<bar>" by (rule fexp_le[OF nz])
  also have "\<dots> < 2 powi 53"
  proof -
    have "rat_of_int \<bar>n\<bar> < of_int (2 ^ 53)" using assms by (simp only: of_int_less_iff)
    then show ?thesis by simp
  qed
  finally have "fexp ?x < 53" by (rule power_int_le_imp_less_exp[rotated]) simp_all
  then have "fexp ?x - 52 = - int (nat (52 - fexp ?x))" by simp
  then obtain k where k: "fexp ?x - 52 = - int k" ..
  have s: "(2::rat) powi (fexp ?x - 52) = 1 / 2 ^ k"
    by (simp add: k power_int_minus_divide)
  have "?x / (1 / 2 ^ k) = of_int (n * 2 ^ k)" by simp
  then have "round_half_even (?x / (1 / 2 ^ k)) = n * 2 ^ k"
    by (simp only: round_half_even_of_int)
  then show ?thesis using nz by (simp add: fl_def s Let_def)
qed

lemma fl_of_int_small: "0 < n \<Longrightarrow> n < 2 ^ 48 \<Longrightarrow> fl (of_int n) = of_int n"
proof -
  assume a: "0 < n" "n < 2 ^ 48"
  have "(2::int) ^ 48 < 2 ^ 53" by simp
  then have "\<bar>n\<bar> < 2 ^ 53" using a by linarith
  then show ?thesis by (rule fl_of_int)
qed

lemma rat_of_int_le_pow: "M \<le> 2 ^ 48 \<Longrightarrow> rat_of_int M \<le> 2 ^ 48"
proof -
  assume "M \<le> 2 ^ 48"
  then have "rat_of_int M \<le> of_int (2 ^ 48)" by (simp only: of_int_le_iff)
  then show ?thesis by simp
qed

text \<open>
  Two roundings and the added half stay within one unit of an integer \<open>M\<close> up to
  \<open>2^48\<close> when the exact product is within one rounding of \<open>M\<close>.
\<close>

lemma two_roundings_below:
  fixes p1 p2 t Mr :: rat
  assumes "\<bar>p1 - t\<bar> \<le> t / 2 ^ 53" "\<bar>p2 - (p1 + 1 / 2)\<bar> \<le> (p1 + 1 / 2) / 2 ^ 53"
    "t \<le> Mr * (1 + 1 / 2 ^ 53)" "Mr \<le> 2 ^ 48"
  shows "p2 < Mr + 1"
proof -
  have n: "(2::rat) ^ 53 = 9007199254740992" "(2::rat) ^ 48 = 281474976710656" by simp_all
  have a: "p1 - t \<le> t / 9007199254740992"
    using abs_le_D1[OF assms(1)] unfolding n .
  have b: "p2 - (p1 + 1 / 2) \<le> p1 / 9007199254740992 + 1 / 18014398509481984"
    using abs_le_D1[OF assms(2)] unfolding n by (simp add: add_divide_distrib)
  have c: "t \<le> Mr + Mr / 9007199254740992"
    using assms(3) unfolding n by (simp add: algebra_simps)
  have d: "Mr \<le> 281474976710656" using assms(4) unfolding n .
  show ?thesis using a b c d by linarith
qed

lemma two_roundings_above:
  fixes p1 p2 t Mr :: rat
  assumes "\<bar>p1 - t\<bar> \<le> t / 2 ^ 53" "\<bar>p2 - (p1 + 1 / 2)\<bar> \<le> (p1 + 1 / 2) / 2 ^ 53"
    "Mr * (1 - 1 / 2 ^ 53) \<le> t" "Mr \<le> 2 ^ 48" "0 \<le> Mr"
  shows "Mr \<le> p2"
proof -
  have n: "(2::rat) ^ 53 = 9007199254740992" "(2::rat) ^ 48 = 281474976710656" by simp_all
  have a: "- (p1 - t) \<le> t / 9007199254740992"
    using abs_le_D2[OF assms(1)] unfolding n .
  have b: "- (p2 - (p1 + 1 / 2)) \<le> p1 / 9007199254740992 + 1 / 18014398509481984"
    using abs_le_D2[OF assms(2)] unfolding n by (simp add: add_divide_distrib)
  have c: "Mr - Mr / 9007199254740992 \<le> t"
    using assms(3) unfolding n by (simp add: algebra_simps)
  have d: "Mr \<le> 281474976710656" using assms(4) unfolding n .
  show ?thesis using a b c d assms(5) by linarith
qed

lemma half_up_le:
  assumes "0 \<le> t" "t \<le> of_int M * (1 + 1 / 2 ^ 53)" "M \<le> 2 ^ 48"
  shows "py_int (fl (fl t + 1 / 2)) \<le> M"
proof -
  have p1: "0 \<le> fl t" using assms(1) by (rule fl_nonneg)
  have e1: "\<bar>fl t - t\<bar> \<le> t / 2 ^ 53" using fl_error[of t] assms(1) by simp
  have e2: "\<bar>fl (fl t + 1 / 2) - (fl t + 1 / 2)\<bar> \<le> (fl t + 1 / 2) / 2 ^ 53"
    using fl_error[of "fl t + 1 / 2"] p1 by simp
  have p2: "0 \<le> fl (fl t + 1 / 2)" using p1 by (intro fl_nonneg) simp
  have "fl (fl t + 1 / 2) < of_int M + 1"
    by (rule two_roundings_below[OF e1 e2 assms(2) rat_of_int_le_pow[OF assms(3)]])
  then have "fl (fl t + 1 / 2) < of_int (M + 1)" by simp
  then have "\<lfloor>fl (fl t + 1 / 2)\<rfloor> < M + 1" by (simp only: floor_less_iff)
  then show ?thesis using p2 by (simp add: py_int_def)
qed

lemma half_up_ge:
  assumes "of_int M * (1 - 1 / 2 ^ 53) \<le> t" "0 \<le> M" "M \<le> 2 ^ 48"
  shows "M \<le> py_int (fl (fl t + 1 / 2))"
proof -
  have M0: "0 \<le> rat_of_int M" using assms(2) by simp
  have "0 \<le> of_int M * (1 - 1 / 2 ^ 53 :: rat)" using M0 by (intro mult_nonneg_nonneg) simp_all
  then have t: "0 \<le> t" using assms(1) by linarith
  have p1: "0 \<le> fl t" using t by (rule fl_nonneg)
  have e1: "\<bar>fl t - t\<bar> \<le> t / 2 ^ 53" using fl_error[of t] t by simp
  have e2: "\<bar>fl (fl t + 1 / 2) - (fl t + 1 / 2)\<bar> \<le> (fl t + 1 / 2) / 2 ^ 53"
    using fl_error[of "fl t + 1 / 2"] p1 by simp
  have p2: "0 \<le> fl (fl t + 1 / 2)" using p1 by (intro fl_nonneg) simp
  have "of_int M \<le> fl (fl t + 1 / 2)"
    by (rule two_roundings_above[OF e1 e2 assms(1) rat_of_int_le_pow[OF assms(3)] M0])
  then have "M \<le> \<lfloor>fl (fl t + 1 / 2)\<rfloor>" by (simp only: le_floor_iff)
  then show ?thesis using p2 by (simp add: py_int_def)
qed

text \<open>Dividing by \<open>W\<close> and multiplying back loses at most one rounding.\<close>

lemma quot_scale:
  assumes "0 < W" "0 < n"
  shows "\<bar>of_int W * fl (of_int n / of_int W) - of_int n\<bar> \<le> rat_of_int n / 2 ^ 53"
proof -
  let ?a = "rat_of_int n / of_int W"
  have W: "0 < rat_of_int W" using assms(1) by simp
  have a: "0 \<le> ?a" using assms by simp
  have "\<bar>fl ?a - ?a\<bar> \<le> ?a / 2 ^ 53" using fl_error[of ?a] a by (simp only: abs_of_nonneg)
  then have "of_int W * \<bar>fl ?a - ?a\<bar> \<le> of_int W * (?a / 2 ^ 53)"
    using W by (intro mult_left_mono) simp_all
  moreover have "of_int W * \<bar>fl ?a - ?a\<bar> = \<bar>of_int W * fl ?a - of_int n\<bar>"
  proof -
    have "of_int W * \<bar>fl ?a - ?a\<bar> = \<bar>of_int W * (fl ?a - ?a)\<bar>"
      using W by (simp add: abs_mult)
    also have "of_int W * (fl ?a - ?a) = of_int W * fl ?a - of_int n"
      using W by (simp add: algebra_simps)
    finally show ?thesis .
  qed
  moreover have "of_int W * (?a / 2 ^ 53) = rat_of_int n / 2 ^ 53" using W by simp
  ultimately show ?thesis by simp
qed

lemma quot_scale_bounds:
  assumes "0 < W" "0 < n"
  shows "of_int n * (1 - 1 / 2 ^ 53) \<le> of_int W * fl (of_int n / of_int W)"
    and "of_int W * fl (of_int n / of_int W) \<le> of_int n * (1 + 1 / 2 ^ 53)"
  using abs_le_D1[OF quot_scale[OF assms]] abs_le_D2[OF quot_scale[OF assms]]
  by (simp_all add: algebra_simps)

lemma scale_dim_tight:
  assumes "0 < W" "W < 2 ^ 48" "0 < n" "n < 2 ^ 48"
  shows "scale_dim W (fl (of_int n / of_int W)) = n"
proof -
  let ?t = "of_int W * fl (of_int n / of_int W)"
  have n: "n \<le> 2 ^ 48" "0 \<le> n" using assms by simp_all
  have t0: "0 \<le> ?t" using assms by (intro mult_nonneg_nonneg fl_nonneg) simp_all
  have "py_int (fl (fl ?t + 1 / 2)) \<le> n"
    by (rule half_up_le[OF t0 quot_scale_bounds(2)[OF assms(1,3)] n(1)])
  moreover have "n \<le> py_int (fl (fl ?t + 1 / 2))"
    by (rule half_up_ge[OF quot_scale_bounds(1)[OF assms(1,3)] n(2,1)])
  ultimately show ?thesis
    by (simp add: scale_dim_def fl_of_int_small[OF assms(1,2)])
qed

lemma scale_dim_le:
  assumes "0 < H" "H < 2 ^ 48" "0 < n" "n < 2 ^ 48" "0 \<le> fr" "fr \<le> fl (of_int n / of_int H)"
  shows "scale_dim H fr \<le> n"
proof -
  have H: "0 \<le> rat_of_int H" using assms(1) by simp
  have t0: "0 \<le> of_int H * fr" using H assms(5) by (rule mult_nonneg_nonneg)
  have "of_int H * fr \<le> of_int H * fl (of_int n / of_int H)"
    using assms(6) H by (rule mult_left_mono)
  also have "\<dots> \<le> of_int n * (1 + 1 / 2 ^ 53)"
    by (rule quot_scale_bounds(2)[OF assms(1,3)])
  finally have "py_int (fl (fl (of_int H * fr) + 1 / 2)) \<le> n"
    using assms(4) by (intro half_up_le[OF t0]) simp_all
  then show ?thesis by (simp add: scale_dim_def fl_of_int_small[OF assms(1,2)])
qed

lemma float_quot_pos:
  assumes "0 < W" "W < 2 ^ 48" "0 < n" "n < 2 ^ 48"
  shows "float_quot (Some n) W = Inr (fl (of_int n / of_int W))"
  using assms by (simp add: float_quot_def fl_of_int_small)


section \<open>Regions\<close>

lemma num_simps [simp]:
  "num_eq (PyInt i) (PyInt j) \<longleftrightarrow> i = j"
  "num_gt (PyInt i) (PyInt j) \<longleftrightarrow> j < i"
  "num_add (PyInt i) (PyInt j) = PyInt (i + j)"
  "num_sub (PyInt i) (PyInt j) = PyInt (i - j)"
  by (simp_all add: num_eq_def num_gt_def num_add_def num_sub_def num_val_def)

text \<open>33.3 percent of 1000 pixels: the double next to 33.3, scaled and rounded.\<close>

lemma pct_to_px_example: "pct_to_px (PyFloat (fl (333 / 10))) 1000 = PyInt 333"
  by code_simp

text \<open>What \<open>region_to_apply\<close> does with a pixel region on an image of known size.\<close>

lemma pixel_region_to_apply:
  assumes "\<not> region_full (request m)" "\<not> region_pct (request m)"
    "\<not> region_square (request m)"
    "region_xywh (request m) = Some (PyInt x, PyInt y, PyInt w, PyInt h)"
    "0 < width m" "0 < height m"
  shows "region_to_apply m =
    (let w' = (if width m < x + w then width m - x else w);
         h' = (if height m < y + h then height m - y else h)
     in if w' = 0 \<or> h' = 0 then Inl (IIIFZeroSizeError (Some 400) (Some ''region''))
        else if x = 0 \<and> y = 0 \<and> w' = width m \<and> h' = height m then Inr None
        else Inr (Some (PyInt x, PyInt y, PyInt w', PyInt h')))"
  using assms
  by (simp add: region_to_apply_def region_noop_def region_clipped_def Let_def)

text \<open>
  A box that is returned ends inside the image, and a request that crosses the right or
  the lower edge is cut at that edge.
\<close>

lemma pixel_region_within_image:
  assumes "\<not> region_full (request m)" "\<not> region_pct (request m)"
    "\<not> region_square (request m)"
    "region_xywh (request m) = Some (PyInt x, PyInt y, PyInt w, PyInt h)"
    "0 < width m" "0 < height m"
    "region_to_apply m = Inr (Some (PyInt x', PyInt y', PyInt w', PyInt h'))"
  shows "x' = x \<and> y' = y \<and> x' + w' \<le> width m \<and> y' + h' \<le> height m \<and>
         (width m < x + w \<longrightarrow> x + w' = width m) \<and>
         (height m < y + h \<longrightarrow> y + h' = height m)"
  using assms(7) unfolding pixel_region_to_apply[OF assms(1-6)] Let_def
  by (auto split: if_splits)

text \<open>The box has a positive width and height when its corner lies inside the image.\<close>

lemma pixel_region_positive:
  assumes "\<not> region_full (request m)" "\<not> region_pct (request m)"
    "\<not> region_square (request m)"
    "region_xywh (request m) = Some (PyInt x, PyInt y, PyInt w, PyInt h)"
    "0 < width m" "0 < height m" "0 < w" "0 < h" "x < width m" "y < height m"
    "region_to_apply m = Inr (Some (PyInt x', PyInt y', PyInt w', PyInt h'))"
  shows "0 < w' \<and> 0 < h'"
  using assms(7-11) unfolding pixel_region_to_apply[OF assms(1-6)] Let_def
  by (auto split: if_splits)

text \<open>
  C2. The claim is that every box returned for a pixel region with \<open>x, y \<ge> 0\<close> and
  \<open>w, h > 0\<close> on an image of known size lies within the image and has a positive
  width and height. The truncation subtracts \<open>x\<close> from the image width also when \<open>x\<close> is
  beyond the right edge, and only a width of exactly 0 is rejected: the region
  \<^verbatim>\<open>150,0,10,10\<close> on a 100 by 100 image comes back as the box \<open>(150, 0, -50, 10)\<close>.
\<close>

theorem region_outside_image_negative_width:
  "region_to_apply (manipulator_at ''2.0'' 100 100 (with_pixel_region 150 0 10 10 plain_request))
     = Inr (Some (PyInt 150, PyInt 0, PyInt (- 50), PyInt 10))"
  by (simp add: example_defs region_to_apply_def region_noop_def region_clipped_def Let_def)

text \<open>
  C3. For a square region request on an image with known \<open>width, height > 0\<close>:
  if \<open>width > height\<close> the box is \<open>((width - height) div 2, 0, height, height)\<close>, and
  if \<open>width \<le> height\<close> it is \<open>(0, (height - width) div 2, width, width)\<close>, with floor
  division.
\<close>

theorem square_region_to_apply:
  assumes "region_square (request m)" "\<not> region_noop (request m)"
    "0 < width m" "0 < height m"
  shows "region_to_apply m =
    (if height m < width m
     then Inr (Some (PyInt ((width m - height m) div 2), PyInt 0,
                     PyInt (height m), PyInt (height m)))
     else Inr (Some (PyInt 0, PyInt ((height m - width m) div 2),
                     PyInt (width m), PyInt (width m))))"
  using assms by (simp add: region_to_apply_def)

text \<open>The scenario of C3: a 1000 by 800 image yields the box \<open>(100, 0, 800, 800)\<close>.\<close>

theorem square_region_to_apply_witness:
  "region_to_apply (manipulator_at ''2.0'' 1000 800 (with_square_region plain_request))
     = Inr (Some (PyInt 100, PyInt 0, PyInt 800, PyInt 800))"
  using square_region_to_apply
     [of "manipulator_at ''2.0'' 1000 800 (with_square_region plain_request)"]
  by (simp add: example_defs region_noop_def)


section \<open>Best-fit sizes\<close>

text \<open>
  C1, as the code has it. For a request \<^verbatim>\<open>!mw,mh\<close> with \<open>mw, mh > 0\<close> on an image of
  known \<open>width, height > 0\<close>, all four below \<open>2^48\<close>: \<open>size_to_apply\<close> computes
  \<open>frac = min(mw/width, mh/height)\<close>, \<open>w = int(width*frac + 0.5)\<close> and
  \<open>h = int(height*frac + 0.5)\<close> in double arithmetic. These satisfy \<open>w \<le> mw\<close>,
  \<open>h \<le> mh\<close>, and \<open>w = mw\<close> or \<open>h = mh\<close>. The zero-size error (400, size) is raised
  when \<open>w\<close> or \<open>h\<close> is 0, the no-op sentinel is returned when \<open>(w,h)\<close> is the current
  \<open>(width,height)\<close>, and \<open>(w,h)\<close> is returned otherwise.
\<close>

theorem bestfit_size_to_apply:
  assumes bang: "size_bang (request m)" "\<not> size_full (request m)"
      "size_pct (request m) = None" "size_wh (request m) = (Some mw, Some mh)"
    and pos: "0 < mw" "0 < mh" "0 < width m" "0 < height m"
    and bound: "mw < 2 ^ 48" "mh < 2 ^ 48" "width m < 2 ^ 48" "height m < 2 ^ 48"
  shows "let fr = min (fl (of_int mw / of_int (width m))) (fl (of_int mh / of_int (height m)));
             w = py_int (fl (fl (of_int (width m) * fr) + 1 / 2));
             h = py_int (fl (fl (of_int (height m) * fr) + 1 / 2))
         in w \<le> mw \<and> h \<le> mh \<and> (w = mw \<or> h = mh) \<and>
            size_to_apply m =
              (if w = 0 \<or> h = 0 then Inl (IIIFZeroSizeError (Some 400) (Some ''size''))
               else if w = width m \<and> h = height m then Inr None
               else Inr (Some (w, h)))"
proof -
  define fw where "fw = fl (of_int mw / rat_of_int (width m))"
  define fh where "fh = fl (of_int mh / rat_of_int (height m))"
  define fr where "fr = min fw fh"
  have fw0: "0 \<le> fw" unfolding fw_def using pos by (intro fl_nonneg) simp
  have fh0: "0 \<le> fh" unfolding fh_def using pos by (intro fl_nonneg) simp
  have fr0: "0 \<le> fr" using fw0 fh0 by (simp add: fr_def)
  have sw: "scale_dim (width m) fr = py_int (fl (fl (of_int (width m) * fr) + 1 / 2))"
    by (simp add: scale_dim_def fl_of_int_small[OF pos(3) bound(3)])
  have sh: "scale_dim (height m) fr = py_int (fl (fl (of_int (height m) * fr) + 1 / 2))"
    by (simp add: scale_dim_def fl_of_int_small[OF pos(4) bound(4)])
  have wle: "scale_dim (width m) fr \<le> mw"
    by (rule scale_dim_le[OF pos(3) bound(3) pos(1) bound(1) fr0])
       (simp add: fr_def fw_def)
  have hle: "scale_dim (height m) fr \<le> mh"
    by (rule scale_dim_le[OF pos(4) bound(4) pos(2) bound(2) fr0])
       (simp add: fr_def fh_def)
  have tight: "scale_dim (width m) fr = mw \<or> scale_dim (height m) fr = mh"
  proof (cases "fw \<le> fh")
    case True
    then have "fr = fw" by (simp add: fr_def)
    then show ?thesis
      using scale_dim_tight[OF pos(3) bound(3) pos(1) bound(1)] by (simp add: fw_def)
  next
    case False
    then have "fr = fh" by (simp add: fr_def)
    then show ?thesis
      using scale_dim_tight[OF pos(4) bound(4) pos(2) bound(2)] by (simp add: fh_def)
  qed
  have target: "size_target m = Inr (scale_dim (width m) fr, scale_dim (height m) fr)"
    using bang
    by (simp add: size_target_def Let_def fr_def fw_def fh_def
        float_quot_pos[OF pos(3) bound(3) pos(1) bound(1)]
        float_quot_pos[OF pos(4) bound(4) pos(2) bound(2)])
  have res: "size_to_apply m =
      (if scale_dim (width m) fr = 0 \<or> scale_dim (height m) fr = 0
         then Inl (IIIFZeroSizeError (Some 400) (Some ''size''))
       else if scale_dim (width m) fr = width m \<and> scale_dim (height m) fr = height m
         then Inr None
       else Inr (Some (scale_dim (width m) fr, scale_dim (height m) fr)))"
    using bang by (simp add: size_to_apply_def target)
  show ?thesis
    unfolding Let_def using wle hle tight res unfolding sw sh
    unfolding fr_def fw_def fh_def by blast
qed

text \<open>
  The theorem at \<^verbatim>\<open>!300,300\<close> on a 1000 by 800 image: the width is tight and the
  result is \<open>(300, 240)\<close>.
\<close>

theorem bestfit_size_to_apply_witness:
  "size_to_apply (manipulator_at ''2.0'' 1000 800 (with_size_bang 300 300 plain_request))
     = Inr (Some (300, 240))"
proof -
  let ?m = "manipulator_at ''2.0'' 1000 800 (with_size_bang 300 300 plain_request)"
  let ?fr = "min (fl (of_int 300 / of_int (width ?m))) (fl (of_int 300 / of_int (height ?m)))"
  have hyp: "size_bang (request ?m)" "\<not> size_full (request ?m)"
    "size_pct (request ?m) = None" "size_wh (request ?m) = (Some 300, Some 300)"
    "0 < width ?m" "0 < height ?m" "width ?m < 2 ^ 48" "height ?m < 2 ^ 48"
    by (simp_all add: example_defs)
  have w: "py_int (fl (fl (of_int (width ?m) * ?fr) + 1 / 2)) = 300" by code_simp
  have h: "py_int (fl (fl (of_int (height ?m) * ?fr) + 1 / 2)) = 240" by code_simp
  have wh: "width ?m = 1000" "height ?m = 800" by (simp_all add: example_defs)
  have "0 < (300::int)" "(300::int) < 2 ^ 48" by simp_all
  from bestfit_size_to_apply[OF hyp(1-4) this(1) this(1) hyp(5,6) this(2) this(2) hyp(7,8)]
  show ?thesis unfolding Let_def w h unfolding wh by simp
qed

text \<open>
  C1 as stated fails where a side rounds to 0: \<^verbatim>\<open>!1,1\<close> on a 4 by 1 image gives
  \<open>frac = 0.25\<close>, \<open>w = int(1.5) = 1\<close> and \<open>h = int(0.75) = 0\<close>, and the zero-size
  error is raised instead of a size being returned.
\<close>

theorem bestfit_zero_size_counterexample:
  "size_to_apply (manipulator_at ''2.0'' 4 1 (with_size_bang 1 1 plain_request))
     = Inl (IIIFZeroSizeError (Some 400) (Some ''size''))"
  by code_simp

text \<open>
  The bound on the four numbers is needed: above \<open>2^53\<close> the conversion of \<open>mw\<close> to a
  float can round up, and the result then exceeds the box.
\<close>

lemma bestfit_beyond_double_precision:
  "size_to_apply (manipulator_at ''2.0'' 1 1
      (with_size_bang 9007199254740995 9007199254740995 plain_request))
     = Inr (Some (9007199254740996, 9007199254740996))"
  by code_simp

text \<open>
  The roundings are those of the doubles, not of the exact quotient: for \<^verbatim>\<open>!13,1000\<close> on
  a 6 by 27 image the exact height \<open>27 * 13 / 6 = 58.5\<close> would round to 59, and the
  doubles give \<open>int(27 * 2.1666666666666665 + 0.5) = 58\<close>.
\<close>

lemma bestfit_half_in_doubles:
  "size_to_apply (manipulator_at ''2.0'' 6 27 (with_size_bang 13 1000 plain_request))
     = Inr (Some (13, 58))"
  by code_simp


section \<open>No-op sentinels and zero sizes\<close>

text \<open>
  The working dimensions are those of an image or the marker \<open>-1\<close> of the base class;
  neither is 0.
\<close>

lemma do_first_dimensions:
  "do_first m = Inr m' \<Longrightarrow> width m' = - 1 \<and> height m' = - 1"
  by (auto simp: do_first_def)



text \<open>
  A region \<^verbatim>\<open>pct:0,0,100,100\<close> held as a tuple passes the first test of
  \<open>region_to_apply\<close>, whatever the dimensions.
\<close>

lemma pct_tuple_region_to_apply:
  assumes "region_pct (request m)" "region_xywh_is_tuple (request m)"
    "region_xywh (request m) = Some (x, y, w, h)"
    "num_val x = 0" "num_val y = 0" "num_val w = 100" "num_val h = 100"
  shows "region_to_apply m = Inr None"
  using assms by (simp add: region_to_apply_def region_noop_def num_eq_def num_val_def)




text \<open>
  The zero-size check comes before the comparison with the current size, so at a current
  width or height of 0 a computed size equal to the current one is an error.
\<close>

lemma size_to_apply_zero_dimension:
  assumes "size_target m = Inr (width m, height m)" "width m = 0 \<or> height m = 0"
    "\<not> size_full (request m)" "size_pct (request m) \<noteq> Some 100"
  shows "size_to_apply m = Inl (IIIFZeroSizeError (Some 400) (Some ''size''))"
  using assms by (simp add: size_to_apply_def)

text \<open>
  C8. If the clipped width or height of a region is zero, \<open>region_to_apply\<close> raises the
  zero-size error with code 400 and parameter \<^verbatim>\<open>region\<close>, as for the region
  \<^verbatim>\<open>0,0,0,50\<close> on any image with positive dimensions. If a computed target size has
  \<open>w = 0\<close> or \<open>h = 0\<close>, \<open>size_to_apply\<close> raises the zero-size error with code 400 and
  parameter \<^verbatim>\<open>size\<close>, as for the size \<^verbatim>\<open>0,\<close> on any image (any width but 0, by which
  the missing height is divided).
\<close>

theorem zero_size_errors:
  "(\<not> region_noop (request m) \<and> 0 < width m \<and> 0 < height m \<and>
      \<not> region_square (request m) \<and> region_clipped m = Inr (x, y, w, h) \<and>
      (num_val w = 0 \<or> num_val h = 0)
      \<longrightarrow> region_to_apply m = Inl (IIIFZeroSizeError (Some 400) (Some ''region''))) \<and>
   (\<not> region_full (request m) \<and> \<not> region_pct (request m) \<and>
      \<not> region_square (request m) \<and>
      region_xywh (request m) = Some (PyInt 0, PyInt 0, PyInt 0, PyInt 50) \<and>
      0 < width m \<and> 0 < height m
      \<longrightarrow> region_to_apply m = Inl (IIIFZeroSizeError (Some 400) (Some ''region''))) \<and>
   (\<not> size_full (request m) \<and> size_pct (request m) \<noteq> Some 100 \<and>
      size_target m = Inr (sw, sh) \<and> (sw = 0 \<or> sh = 0)
      \<longrightarrow> size_to_apply m = Inl (IIIFZeroSizeError (Some 400) (Some ''size''))) \<and>
   (\<not> size_full (request m) \<and> size_pct (request m) = None \<and> \<not> size_bang (request m) \<and>
      size_wh (request m) = (Some 0, None) \<and> width m \<noteq> 0
      \<longrightarrow> size_to_apply m = Inl (IIIFZeroSizeError (Some 400) (Some ''size'')))"
proof (intro conjI impI)
  assume "\<not> region_noop (request m) \<and> 0 < width m \<and> 0 < height m \<and>
      \<not> region_square (request m) \<and> region_clipped m = Inr (x, y, w, h) \<and>
      (num_val w = 0 \<or> num_val h = 0)"
  then show "region_to_apply m = Inl (IIIFZeroSizeError (Some 400) (Some ''region''))"
    by (auto simp: region_to_apply_def num_eq_def num_val_def)
next
  assume a: "\<not> region_full (request m) \<and> \<not> region_pct (request m) \<and>
      \<not> region_square (request m) \<and>
      region_xywh (request m) = Some (PyInt 0, PyInt 0, PyInt 0, PyInt 50) \<and>
      0 < width m \<and> 0 < height m"
  then show "region_to_apply m = Inl (IIIFZeroSizeError (Some 400) (Some ''region''))"
    using pixel_region_to_apply[of m 0 0 0 50] by (simp add: Let_def)
next
  assume "\<not> size_full (request m) \<and> size_pct (request m) \<noteq> Some 100 \<and>
      size_target m = Inr (sw, sh) \<and> (sw = 0 \<or> sh = 0)"
  then show "size_to_apply m = Inl (IIIFZeroSizeError (Some 400) (Some ''size''))"
    by (auto simp: size_to_apply_def)
next
  assume a: "\<not> size_full (request m) \<and> size_pct (request m) = None \<and>
      \<not> size_bang (request m) \<and> size_wh (request m) = (Some 0, None) \<and> width m \<noteq> 0"
  have "py_int (fl (fl 0 + 1 / 2)) = 0" by code_simp
  then have "size_target m = Inr (0, 0)"
    using a by (simp add: size_target_def other_dim_def)
  then show "size_to_apply m = Inl (IIIFZeroSizeError (Some 400) (Some ''size''))"
    using a by (simp add: size_to_apply_def)
qed

text \<open>
  The theorem at: the region \<^verbatim>\<open>100,0,10,10\<close>, clipped to width 0, and the region
  \<^verbatim>\<open>0,0,0,50\<close>, and the sizes \<^verbatim>\<open>100,0\<close> and \<^verbatim>\<open>0,\<close>, all on a 100 by 100 image.
\<close>

theorem zero_size_errors_witness:
  "region_to_apply (manipulator_at ''2.0'' 100 100 (with_pixel_region 100 0 10 10 plain_request))
     = Inl (IIIFZeroSizeError (Some 400) (Some ''region'')) \<and>
   region_to_apply (manipulator_at ''2.0'' 100 100 (with_pixel_region 0 0 0 50 plain_request))
     = Inl (IIIFZeroSizeError (Some 400) (Some ''region'')) \<and>
   size_to_apply (manipulator_at ''2.0'' 100 100 (with_size_wh (Some 100) (Some 0) plain_request))
     = Inl (IIIFZeroSizeError (Some 400) (Some ''size'')) \<and>
   size_to_apply (manipulator_at ''2.0'' 100 100 (with_size_wh (Some 0) None plain_request))
     = Inl (IIIFZeroSizeError (Some 400) (Some ''size''))"
proof -
  let ?a = "manipulator_at ''2.0'' 100 100 (with_pixel_region 100 0 10 10 plain_request)"
  let ?b = "manipulator_at ''2.0'' 100 100 (with_pixel_region 0 0 0 50 plain_request)"
  let ?c = "manipulator_at ''2.0'' 100 100 (with_size_wh (Some 100) (Some 0) plain_request)"
  let ?d = "manipulator_at ''2.0'' 100 100 (with_size_wh (Some 0) None plain_request)"
  have a: "\<not> region_noop (request ?a) \<and> 0 < width ?a \<and> 0 < height ?a \<and>
      \<not> region_square (request ?a) \<and>
      region_clipped ?a = Inr (PyInt 100, PyInt 0, PyInt 0, PyInt 10) \<and>
      (num_val (PyInt 0) = 0 \<or> num_val (PyInt 10) = 0)"
    by (simp add: example_defs region_noop_def region_clipped_def num_val_def)
  have b: "\<not> region_full (request ?b) \<and> \<not> region_pct (request ?b) \<and>
      \<not> region_square (request ?b) \<and>
      region_xywh (request ?b) = Some (PyInt 0, PyInt 0, PyInt 0, PyInt 50) \<and>
      0 < width ?b \<and> 0 < height ?b"
    by (simp add: example_defs)
  have c: "\<not> size_full (request ?c) \<and> size_pct (request ?c) \<noteq> Some 100 \<and>
      size_target ?c = Inr (100, 0) \<and> ((100::int) = 0 \<or> (0::int) = 0)"
    by (simp add: example_defs size_target_def)
  have d: "\<not> size_full (request ?d) \<and> size_pct (request ?d) = None \<and>
      \<not> size_bang (request ?d) \<and> size_wh (request ?d) = (Some 0, None) \<and> width ?d \<noteq> 0"
    by (simp add: example_defs)
  have "region_to_apply ?a = Inl (IIIFZeroSizeError (Some 400) (Some ''region''))"
    using zero_size_errors[of ?a "PyInt 100" "PyInt 0" "PyInt 0" "PyInt 10"] a by blast
  moreover have "region_to_apply ?b = Inl (IIIFZeroSizeError (Some 400) (Some ''region''))"
    using zero_size_errors[of ?b] b by blast
  moreover have "size_to_apply ?c = Inl (IIIFZeroSizeError (Some 400) (Some ''size''))"
    using zero_size_errors[of ?c _ _ _ _ 100 0] c by blast
  moreover have "size_to_apply ?d = Inl (IIIFZeroSizeError (Some 400) (Some ''size''))"
    using zero_size_errors[of ?d] d by blast
  ultimately show ?thesis by simp
qed


section \<open>Unknown dimensions\<close>

text \<open>
  With a dimension not above 0, every region request but the two no-op forms fails in
  \<open>region_to_apply\<close> with the 501 error for \<^verbatim>\<open>region\<close>, before any geometry.
\<close>

lemma region_to_apply_unknown_dimensions:
  assumes "width m \<le> 0 \<or> height m \<le> 0" "\<not> region_noop (request m)"
  shows "region_to_apply m = Inl (IIIFError (Some 501) (Some ''region''))"
  using assms by (simp add: region_to_apply_def)

text \<open>No error of \<open>size_to_apply\<close> is the 501 error.\<close>

lemma size_to_apply_errors:
  "size_to_apply m = Inl e \<Longrightarrow>
     e = IIIFZeroSizeError (Some 400) (Some ''size'') \<or> e = TypeError \<or> e = ZeroDivisionError"
  by (auto simp: size_to_apply_def size_target_def float_quot_def other_dim_def Let_def
      split: if_splits sum.splits option.splits prod.splits)

text \<open>
  C5. The claim is that \<open>size_to_apply\<close>, like \<open>region_to_apply\<close>, raises the 501 error
  before it computes from unknown dimensions. \<open>size_to_apply\<close> has no such test. At the
  dimensions \<open>(-1, -1)\<close> that the base \<open>do_first\<close> sets: size \<^verbatim>\<open>pct:200\<close> computes
  \<open>w = h = int(-1.5) = -1\<close>, equal to the current size, and returns the no-op sentinel,
  so that \<open>derive\<close> completes and hands back the source file; size \<^verbatim>\<open>pct:50\<close> computes
  \<open>(0, 0)\<close> and raises the zero-size error with code 400; size \<^verbatim>\<open>100,100\<close> is
  returned as it is.
\<close>

theorem size_to_apply_unknown_dimensions:
  "size_to_apply (manipulator_at ''2.0'' (- 1) (- 1) (with_size_pct 200 plain_request))
     = Inr None \<and>
   size_to_apply (manipulator_at ''2.0'' (- 1) (- 1) (with_size_pct 50 plain_request))
     = Inl (IIIFZeroSizeError (Some 400) (Some ''size'')) \<and>
   size_to_apply (manipulator_at ''2.0'' (- 1) (- 1)
       (with_size_wh (Some 100) (Some 100) plain_request))
     = Inr (Some (100, 100)) \<and>
   derive fs_ok (manipulator_at ''2.0'' 0 0 plain_request)
       (Some ''a.jpg'') (Some (with_size_pct 200 plain_request)) None
     = Inr ((manipulator_at ''2.0'' (- 1) (- 1) (with_size_pct 200 plain_request))
             \<lparr>srcfile := Some ''a.jpg'', outfile := Some ''a.jpg''\<rparr>)"
  by code_simp


section \<open>Quality and the pipeline\<close>

text \<open>
  C6. \<open>quality_to_apply\<close> returns the quality of the request unchanged when it is set;
  when it is not set it returns \<^verbatim>\<open>native\<close> for the API versions 1.0 and 1.1 and
  \<^verbatim>\<open>default\<close> for the versions 2.0 and 2.1.
\<close>

theorem quality_to_apply_default:
  "(quality (request m) = Some q \<longrightarrow> quality_to_apply m = q) \<and>
   (quality (request m) = None \<and> (api_version m = ''1.0'' \<or> api_version m = ''1.1'')
      \<longrightarrow> quality_to_apply m = ''native'') \<and>
   (quality (request m) = None \<and> (api_version m = ''2.0'' \<or> api_version m = ''2.1'')
      \<longrightarrow> quality_to_apply m = ''default'')"
proof (intro conjI impI)
  assume "quality (request m) = Some q"
  then show "quality_to_apply m = q" by (simp add: quality_to_apply_def)
next
  assume a: "quality (request m) = None \<and> (api_version m = ''1.0'' \<or> api_version m = ''1.1'')"
  have "str_le ''1.0'' ''1.1''" "str_le ''1.1'' ''1.1''" by simp_all
  with a have "str_le (api_version m) ''1.1''" by auto
  with a show "quality_to_apply m = ''native''" by (simp add: quality_to_apply_def)
next
  assume a: "quality (request m) = None \<and> (api_version m = ''2.0'' \<or> api_version m = ''2.1'')"
  have "\<not> str_le ''2.0'' ''1.1''" "\<not> str_le ''2.1'' ''1.1''" by simp_all
  with a have "\<not> str_le (api_version m) ''1.1''" by auto
  with a show "quality_to_apply m = ''default''" by (simp add: quality_to_apply_def)
qed

text \<open>The theorem at a request for \<^verbatim>\<open>gray\<close> and at requests with no quality.\<close>

theorem quality_to_apply_default_witness:
  "quality_to_apply (manipulator_at ''2.0'' 10 10 (plain_request\<lparr>quality := Some ''gray''\<rparr>))
     = ''gray'' \<and>
   quality_to_apply (manipulator_at ''1.0'' 10 10 plain_request) = ''native'' \<and>
   quality_to_apply (manipulator_at ''1.1'' 10 10 plain_request) = ''native'' \<and>
   quality_to_apply (manipulator_at ''2.0'' 10 10 plain_request) = ''default'' \<and>
   quality_to_apply (manipulator_at ''2.1'' 10 10 plain_request) = ''default''"
  using quality_to_apply_default
      [of "manipulator_at ''2.0'' 10 10 (plain_request\<lparr>quality := Some ''gray''\<rparr>)" "''gray''"]
    quality_to_apply_default [of "manipulator_at ''1.0'' 10 10 plain_request"]
    quality_to_apply_default [of "manipulator_at ''1.1'' 10 10 plain_request"]
    quality_to_apply_default [of "manipulator_at ''2.0'' 10 10 plain_request"]
    quality_to_apply_default [of "manipulator_at ''2.1'' 10 10 plain_request"]
  by (simp add: example_defs)

text \<open>The errors of the stages of the base class, by parameter.\<close>

lemma do_region_error: "do_region b m = Inl e \<Longrightarrow> e = IIIFError (Some 501) (Some ''region'')"
  by (auto simp: do_region_def split: if_splits)

lemma do_size_error: "do_size s m = Inl e \<Longrightarrow> e = IIIFError (Some 501) (Some ''size'')"
  by (auto simp: do_size_def split: if_splits)

lemma do_rotation_error:
  "do_rotation mirror rot m = Inl e \<Longrightarrow> e = IIIFError (Some 501) (Some ''rotation'')"
  by (auto simp: do_rotation_def split: if_splits)

lemma do_quality_error:
  "do_quality q m = Inl e \<Longrightarrow>
     e = IIIFError (Some 501) (Some ''default'') \<or> e = IIIFError (Some 501) (Some ''native'')"
  by (auto simp: do_quality_def split: if_splits)

lemma do_format_error:
  "do_format copyfile fmt m = Inl e \<Longrightarrow>
     e = IIIFError (Some 415) (Some ''format'') \<or> e = IIIFError (Some 500) None"
  by (auto simp: do_format_def split: if_splits option.splits)

text \<open>
  C9. The claim is that an error of the quality stage carries the parameter
  \<^verbatim>\<open>quality\<close>, as the errors of the other stages carry \<^verbatim>\<open>region\<close>, \<^verbatim>\<open>size\<close>,
  \<^verbatim>\<open>rotation\<close> and \<^verbatim>\<open>format\<close>. \<open>do_quality\<close> passes the one quality it accepts as the
  parameter: a request for \<^verbatim>\<open>gray\<close> under version 2.0 fails with parameter
  \<^verbatim>\<open>default\<close>, and a request for \<^verbatim>\<open>grey\<close> under version 1.1 with parameter
  \<^verbatim>\<open>native\<close>.
\<close>

theorem do_quality_error_parameter:
  "derive fs_ok (manipulator_at ''2.0'' 0 0 plain_request)
       (Some ''a.jpg'') (Some (plain_request\<lparr>quality := Some ''gray''\<rparr>)) None
     = Inl (IIIFError (Some 501) (Some ''default'')) \<and>
   derive fs_ok (manipulator_at ''1.1'' 0 0 plain_request)
       (Some ''a.jpg'') (Some (plain_request\<lparr>quality := Some ''grey''\<rparr>)) None
     = Inl (IIIFError (Some 501) (Some ''native''))"
  by code_simp

text \<open>
  The directory of \<^verbatim>\<open>out.jpg\<close> is the empty path and that of \<^verbatim>\<open>/tmp/tiles/out.jpg\<close> is
  \<^verbatim>\<open>/tmp/tiles\<close>. A named output file with no directory part is an \<open>OSError\<close>, on
  every file system.
\<close>

lemma dirname_examples:
  "dirname ''out.jpg'' = []"
  "dirname ''/tmp/tiles/out.jpg'' = ''/tmp/tiles''"
  "dirname ''/out.jpg'' = ''/''"
  by (simp_all add: dirname_def)

lemma output_dir_no_directory:
  "outfile m = Some f \<Longrightarrow> dirname f = [] \<Longrightarrow> output_dir fs m = Inl OSError"
  by (simp add: output_dir_def)

lemma derive_no_directory: "derive fs m src req (Some ''out.jpg'') = Inl OSError"
  by (simp add: derive_def and_then_def output_dir_def set_args_def dirname_def)

text \<open>
  C4, as the code has it. \<open>derive\<close> on an \<^verbatim>\<open>IIIFManipulatorPIL\<close> object never
  completes, whatever the request, the source image, the file system and the bodies of
  the overriding methods: an \<open>OSError\<close> from the creation of the output directory, an
  error of \<open>do_first\<close> (the image does not load) or an error of \<open>region_to_apply\<close>
  (501 or zero size) surfaces first, in this order, and otherwise the call of
  \<open>do_region\<close> with four arguments raises \<open>TypeError\<close>.
\<close>

theorem pil_derive_never_completes:
  "pil_derive fs open_image pil m src req dst =
     (case output_dir fs (set_args m src req dst) of
        Inl e \<Rightarrow> Inl e
      | Inr m0 \<Rightarrow>
         (case pil_do_first open_image m0 of
            Inl e \<Rightarrow> Inl e
          | Inr m1 \<Rightarrow>
             (case region_to_apply m1 of Inl e \<Rightarrow> Inl e | Inr b \<Rightarrow> Inl TypeError))) \<and>
   (\<forall>m'. pil_derive fs open_image pil m src req dst \<noteq> Inr m')"
proof (cases "output_dir fs (set_args m src req dst)")
  case (Inl e)
  then show ?thesis by (simp add: pil_derive_def and_then_def)
next
  case head: (Inr m0)
  show ?thesis
  proof (cases "pil_do_first open_image m0")
    case (Inl e)
    with head show ?thesis by (simp add: pil_derive_def and_then_def)
  next
    case first: (Inr m1)
    show ?thesis
    proof (cases "region_to_apply m1")
      case (Inl e)
      with head first show ?thesis by (simp add: pil_derive_def and_then_def)
    next
      case (Inr b)
      have "call_no_params 4 (pil_do_region pil) m1 = Inl TypeError"
        by (simp add: call_no_params_def)
      with head first Inr show ?thesis by (simp add: pil_derive_def and_then_def)
    qed
  qed
qed

text \<open>
  The theorem at the plain request: on a 100 by 100 image the first stage call raises
  \<open>TypeError\<close>; with a source that does not load the error of \<open>do_first\<close> comes first;
  and with the output file \<^verbatim>\<open>out.jpg\<close>, which has no directory part, the \<open>OSError\<close>
  comes before both.
\<close>

theorem pil_derive_never_completes_witness:
  "pil_derive fs_ok (\<lambda>f. Some (100, 100)) pil_unreached
     (manipulator_at ''2.0'' 0 0 plain_request)
     (Some ''a.jpg'') (Some plain_request) None = Inl TypeError \<and>
   pil_derive fs_ok (\<lambda>f. None) pil_unreached (manipulator_at ''2.0'' 0 0 plain_request)
     (Some ''a.jpg'') (Some plain_request) None = Inl (IIIFError None None) \<and>
   pil_derive fs_ok (\<lambda>f. Some (100, 100)) pil_unreached
     (manipulator_at ''2.0'' 0 0 plain_request)
     (Some ''a.jpg'') (Some plain_request) (Some ''out.jpg'') = Inl OSError"
proof -
  let ?m = "manipulator_at ''2.0'' 0 0 plain_request"
  let ?args = "set_args ?m (Some ''a.jpg'') (Some plain_request) None"
  let ?loaded = "?args\<lparr>width := 100, height := 100\<rparr>"
  have head: "output_dir fs_ok ?args = Inr ?args"
    by (simp add: output_dir_def set_args_def example_defs)
  have first: "pil_do_first (\<lambda>f. Some (100, 100)) ?args = Inr ?loaded"
    by (simp add: pil_do_first_def)
  have region: "region_to_apply ?loaded = Inr None"
    by (simp add: region_to_apply_def region_noop_def set_args_def example_defs)
  have fails: "pil_do_first (\<lambda>f. None) ?args = Inl (IIIFError None None)"
    by (simp add: pil_do_first_def)
  have nodir: "output_dir fs_ok
      (set_args ?m (Some ''a.jpg'') (Some plain_request) (Some ''out.jpg'')) = Inl OSError"
    by (simp add: output_dir_def set_args_def dirname_def)
  have "pil_derive fs_ok (\<lambda>f. Some (100, 100)) pil_unreached ?m
      (Some ''a.jpg'') (Some plain_request) None = Inl TypeError"
    using pil_derive_never_completes
        [of fs_ok "\<lambda>f. Some (100, 100)" pil_unreached ?m "Some ''a.jpg''" "Some plain_request" None]
    by (simp add: head first region)
  moreover have "pil_derive fs_ok (\<lambda>f. None) pil_unreached ?m
      (Some ''a.jpg'') (Some plain_request) None = Inl (IIIFError None None)"
    using pil_derive_never_completes
        [of fs_ok "\<lambda>f. None" pil_unreached ?m "Some ''a.jpg''" "Some plain_request" None]
    by (simp add: head fails)
  moreover have "pil_derive fs_ok (\<lambda>f. Some (100, 100)) pil_unreached ?m
      (Some ''a.jpg'') (Some plain_request) (Some ''out.jpg'') = Inl OSError"
    using pil_derive_never_completes
        [of fs_ok "\<lambda>f. Some (100, 100)" pil_unreached ?m "Some ''a.jpg''" "Some plain_request"
          "Some ''out.jpg''"]
    by (simp add: nodir)
  ultimately show ?thesis by blast
qed

text \<open>
  C4 as stated fails where \<open>region_to_apply\<close> raises: for the region \<^verbatim>\<open>100,0,10,10\<close> on
  a 100 by 100 image the width is cut to 0 and the error is the zero-size error, not a
  \<open>TypeError\<close>.
\<close>

theorem pil_derive_zero_size_counterexample:
  "pil_derive fs_ok (\<lambda>f. Some (100, 100)) pil_unreached
     (manipulator_at ''2.0'' 0 0 plain_request)
     (Some ''a.jpg'') (Some (with_pixel_region 100 0 10 10 plain_request)) None
   = Inl (IIIFZeroSizeError (Some 400) (Some ''region''))"
  by (simp add: pil_derive_def and_then_def output_dir_def pil_do_first_def set_args_def
      example_defs region_to_apply_def region_noop_def region_clipped_def Let_def)


section \<open>The compliance URI by version\<close>

text \<open>
  \<open>compliance_uri\<close> depends on the API version and the compliance level only. For the
  versions 1.0, 1.1 and 2.0 with the level set it is the URI pattern of that version
  with the level number in place of \<^verbatim>\<open>%d\<close>. It is \<open>None\<close> when the version is none of
  these three strings, and when the level is not set.
\<close>

lemma compliance_uri_versions:
  "(api_version m = ''1.0'' \<and> compliance_level m = Some l \<longrightarrow>
      compliance_uri m =
        Some (''http://library.stanford.edu/iiif/image-api/compliance.html#level'' @ fmt_d l)) \<and>
   (api_version m = ''1.1'' \<and> compliance_level m = Some l \<longrightarrow>
      compliance_uri m =
        Some (''http://library.stanford.edu/iiif/image-api/1.1/compliance.html#level'' @ fmt_d l)) \<and>
   (api_version m = ''2.0'' \<and> compliance_level m = Some l \<longrightarrow>
      compliance_uri m = Some (''http://iiif.io/api/image/2/level'' @ fmt_d l @ ''.json'')) \<and>
   (api_version m \<noteq> ''1.0'' \<and> api_version m \<noteq> ''1.1'' \<and> api_version m \<noteq> ''2.0''
      \<longrightarrow> compliance_uri m = None) \<and>
   (compliance_level m = None \<longrightarrow> compliance_uri m = None) \<and>
   (api_version m' = api_version m \<and> compliance_level m' = compliance_level m \<longrightarrow>
      compliance_uri m' = compliance_uri m)"
proof (intro conjI impI)
  assume "api_version m = ''1.0'' \<and> compliance_level m = Some l"
  then show "compliance_uri m =
      Some (''http://library.stanford.edu/iiif/image-api/compliance.html#level'' @ fmt_d l)"
    by (simp add: compliance_uri_def subst_d_def)
next
  assume "api_version m = ''1.1'' \<and> compliance_level m = Some l"
  then show "compliance_uri m =
      Some (''http://library.stanford.edu/iiif/image-api/1.1/compliance.html#level'' @ fmt_d l)"
    by (simp add: compliance_uri_def subst_d_def)
next
  assume "api_version m = ''2.0'' \<and> compliance_level m = Some l"
  then show "compliance_uri m = Some (''http://iiif.io/api/image/2/level'' @ fmt_d l @ ''.json'')"
    by (simp add: compliance_uri_def subst_d_def)
next
  assume "api_version m \<noteq> ''1.0'' \<and> api_version m \<noteq> ''1.1'' \<and> api_version m \<noteq> ''2.0''"
  then show "compliance_uri m = None"
    by (simp add: compliance_uri_def)
next
  assume "compliance_level m = None"
  then show "compliance_uri m = None"
    by (simp add: compliance_uri_def split: option.splits)
next
  assume "api_version m' = api_version m \<and> compliance_level m' = compliance_level m"
  then show "compliance_uri m' = compliance_uri m"
    by (simp add: compliance_uri_def)
qed

text \<open>
  C10. The versions 2.0 and 2.1 are one family, with one URI template that names the
  major version only, and the other methods treat them alike (\<open>do_quality\<close> and
  \<open>quality_to_apply\<close> compare the version with \<^verbatim>\<open>'2.0'\<close> and \<^verbatim>\<open>'1.1'\<close> by order). But
  \<open>compliance_uri\<close> compares the version with the three strings 1.0, 1.1 and 2.0 for
  equality: at version 2.0 and level 1 it is the URI of the family, and at version 2.1
  and level 1 it is \<open>None\<close>, where C10 has the same URI.
\<close>

theorem compliance_uri_2_1_missing:
  "compliance_uri ((manipulator_at ''2.0'' 0 0 plain_request)\<lparr>compliance_level := Some 1\<rparr>)
     = Some ''http://iiif.io/api/image/2/level1.json'' \<and>
   compliance_uri ((manipulator_at ''2.1'' 0 0 plain_request)\<lparr>compliance_level := Some 1\<rparr>)
     = None \<and>
   quality_to_apply ((manipulator_at ''2.1'' 0 0 plain_request)\<lparr>compliance_level := Some 1\<rparr>)
     = quality_to_apply ((manipulator_at ''2.0'' 0 0 plain_request)\<lparr>compliance_level := Some 1\<rparr>)"
proof (intro conjI)
  have d: "fmt_d 1 = ''1''" by code_simp
  show "compliance_uri ((manipulator_at ''2.0'' 0 0 plain_request)\<lparr>compliance_level := Some 1\<rparr>)
      = Some ''http://iiif.io/api/image/2/level1.json''"
    by (simp add: compliance_uri_def manipulator_at_def subst_d_def d)
  show "compliance_uri ((manipulator_at ''2.1'' 0 0 plain_request)\<lparr>compliance_level := Some 1\<rparr>)
      = None"
    by (simp add: compliance_uri_def manipulator_at_def)
  show "quality_to_apply ((manipulator_at ''2.1'' 0 0 plain_request)\<lparr>compliance_level := Some 1\<rparr>)
      = quality_to_apply ((manipulator_at ''2.0'' 0 0 plain_request)\<lparr>compliance_level := Some 1\<rparr>)"
    by (simp add: quality_to_apply_def example_defs)
qed

end
